theory Spec2Isabelle
  imports Main
begin

section \<open>The date field of the block editor (core/field\_date.js)\<close>

text \<open>
  The file under verification defines one field class, \<open>Blockly.FieldDate\<close>: its
  constructor, \<open>fromJson\<close>, \<open>dispose\<close>, the class validator \<open>doClassValidation_\<close>,
  the editor \<open>showEditor_\<close> with its change handler, \<open>createWidget_\<close>,
  \<open>widgetDispose_\<close> and \<open>loadLanguage_\<close>. Everything else it calls (the Closure
  date and event libraries, \<open>Blockly.Field\<close>, \<open>Blockly.WidgetDiv\<close>,
  \<open>Blockly.Events\<close>) lives outside the file and is modelled from the specification;
  each such definition says so.
\<close>

subsection \<open>JavaScript values reaching the field\<close>

text \<open>
  The validator's parameter is documented as \<open>{string=}\<close>: a string, or nothing.
  \<open>JUndefined\<close> is a missing argument, \<open>JNull\<close> is \<open>null\<close>. A result of type
  \<open>?string\<close> is a \<open>string option\<close>, with \<open>None\<close> for \<open>null\<close>.
\<close>

datatype jsval = JUndefined | JNull | JString string

text \<open>JavaScript truthiness, \<open>!x\<close>, on these values and on nullable strings.\<close>

fun falsy :: "jsval \<Rightarrow> bool" where
  "falsy JUndefined = True"
| "falsy JNull = True"
| "falsy (JString s) = (s = [])"

fun falsy_result :: "string option \<Rightarrow> bool" where
  "falsy_result None = True"
| "falsy_result (Some s) = (s = [])"

fun js_of_result :: "string option \<Rightarrow> jsval" where
  "js_of_result None = JNull"
| "js_of_result (Some s) = JString s"

subsection \<open>Calendar dates (goog.date.Date)\<close>

text \<open>
  Modelled from the spec: the class \<open>goog.date.Date\<close> of the Closure library is not
  under src/. A calendar date; the month is kept 1-based, as the ISO string writes it.
\<close>

record date =
  year :: nat
  month :: nat
  day :: nat

text \<open>
  Modelled from the spec: ``leap years respected'', by the Gregorian rule.
\<close>

definition isLeapYear :: "nat \<Rightarrow> bool" where
  "isLeapYear y = (y mod 4 = 0 \<and> (y mod 100 \<noteq> 0 \<or> y mod 400 = 0))"

text \<open>
  Modelled from the spec: the days that month \<open>m\<close> of year \<open>y\<close> has (``2-digit day
  valid for that month/year'').
\<close>

definition getNumberOfDaysInMonth :: "nat \<Rightarrow> nat \<Rightarrow> nat" where
  "getNumberOfDaysInMonth y m =
     (if m = 2 then (if isLeapYear y then 29 else 28)
      else if m = 4 \<or> m = 6 \<or> m = 9 \<or> m = 11 then 30
      else 31)"

text \<open>
  Modelled from the spec: a date that the calendar has and that the canonical form can
  write: a year of at most four digits, a month 01--12, a day that the month of that
  year has.
\<close>

definition valid_date :: "date \<Rightarrow> bool" where
  "valid_date d =
     (year d \<le> 9999 \<and> 1 \<le> month d \<and> month d \<le> 12 \<and>
      1 \<le> day d \<and> day d \<le> getNumberOfDaysInMonth (year d) (month d))"

subsubsection \<open>Decimal digits\<close>

text \<open>
  Modelled from the spec: the digits of the ``4-digit year, 2-digit month [\dots], 2-digit
  day''. The value of one ASCII digit, and of a string of digits read from the left.
\<close>

definition digit_of :: "char \<Rightarrow> nat option" where
  "digit_of c =
     (let n = (of_char c :: nat) in if 48 \<le> n \<and> n \<le> 57 then Some (n - 48) else None)"

text \<open>
  Modelled from the spec: the number that a string of digits writes, \<open>None\<close> when a
  character is not a digit.
\<close>

fun digits_value :: "nat \<Rightarrow> string \<Rightarrow> nat option" where
  "digits_value acc [] = Some acc"
| "digits_value acc (c # cs) =
     (case digit_of c of None \<Rightarrow> None | Some k \<Rightarrow> digits_value (10 * acc + k) cs)"

text \<open>Modelled from the spec: the ASCII digit for \<open>k\<close>, and the decimal digits of a number.\<close>

definition digit_char :: "nat \<Rightarrow> char" where
  "digit_char k = char_of (48 + k)"

text \<open>Modelled from the spec: a number in decimal, without padding.\<close>

fun decimal :: "nat \<Rightarrow> string" where
  "decimal n = (if n < 10 then [digit_char n] else decimal (n div 10) @ [digit_char (n mod 10)])"

declare decimal.simps [simp del]

text \<open>
  Modelled from the spec: ``zero-padded'', as \<open>goog.string.padNumber(n, w)\<close> of the
  Closure library does it: the decimal digits, left-padded with zeros to width \<open>w\<close>.
\<close>

definition padNumber :: "nat \<Rightarrow> nat \<Rightarrow> string" where
  "padNumber n w = (let s = decimal n in replicate (w - length s) (CHR ''0'') @ s)"

subsubsection \<open>Parsing and canonical serialization\<close>

text \<open>
  Modelled from the spec: the date that three digit strings write, when they write one:
  ``2-digit month 01--12, 2-digit day valid for that month/year''.
\<close>

definition make_date :: "string \<Rightarrow> string \<Rightarrow> string \<Rightarrow> date option" where
  "make_date ys ms ds =
     (case digits_value 0 ys of None \<Rightarrow> None | Some y \<Rightarrow>
     (case digits_value 0 ms of None \<Rightarrow> None | Some m \<Rightarrow>
     (case digits_value 0 ds of None \<Rightarrow> None | Some d \<Rightarrow>
        if 1 \<le> m \<and> m \<le> 12 \<and> 1 \<le> d \<and> d \<le> getNumberOfDaysInMonth y m
        then Some \<lparr>year = y, month = m, day = d\<rparr> else None)))"

text \<open>
  Modelled from the spec: \<open>goog.date.Date.fromIsoString\<close> belongs to the Closure
  library and is not under src/. The specification has it parse ``a calendar date
  under strict ISO 8601 calendar-date rules (4-digit year, 2-digit month 01--12,
  2-digit day valid for that month/year, leap years respected)''. ISO 8601 writes a
  calendar date in the extended format \<open>YYYY-MM-DD\<close> or in the basic format
  \<open>YYYYMMDD\<close>; both are parsed, anything else is \<open>null\<close>.
\<close>

definition fromIsoString :: "string \<Rightarrow> date option" where
  "fromIsoString s =
     (if length s = 10 \<and> s ! 4 = CHR ''-'' \<and> s ! 7 = CHR ''-''
      then make_date (take 4 s) (take 2 (drop 5 s)) (drop 8 s)
      else if length s = 8
      then make_date (take 4 s) (take 2 (drop 4 s)) (drop 6 s)
      else None)"

text \<open>
  Modelled from the spec: \<open>goog.date.Date.prototype.toIsoString\<close> (Closure library,
  not under src/), called with \<open>opt_verbose = true\<close> everywhere in the file: the
  ``canonical date string [\dots] formatted exactly \<open>YYYY-MM-DD\<close>, zero-padded''.
\<close>

definition toIsoString :: "date \<Rightarrow> string" where
  "toIsoString d =
     padNumber (year d) 4 @ ''-'' @ padNumber (month d) 2 @ ''-'' @ padNumber (day d) 2"

subsection \<open>The class validator\<close>

text \<open>
  \<^verbatim>\<open>
  Blockly.FieldDate.prototype.doClassValidation_ = function(newValue) {
    if (!newValue) {
      return null;
    }
    // Check if the new value is parsable or not.
    var date = goog.date.Date.fromIsoString(newValue);
    if (!date || date.toIsoString(true) != newValue) {
      return null;
    }
    return newValue;
  };
  \<close>
  Two strings are \<open>!=\<close> exactly when they differ as strings.
\<close>

fun doClassValidation :: "jsval \<Rightarrow> string option" where
  "doClassValidation JUndefined = None"
| "doClassValidation JNull = None"
| "doClassValidation (JString newValue) =
     (if newValue = [] then None
      else case fromIsoString newValue of
             None \<Rightarrow> None
           | Some date \<Rightarrow> if toIsoString date \<noteq> newValue then None else Some newValue)"

subsection \<open>Fields (Blockly.Field) and the constructor\<close>

type_synonym validator = "string \<Rightarrow> string option"

text \<open>
  Modelled from the spec: blocks are defined in core/block.js, not under src/. Of
  the block that contains a field only the text direction \<open>RTL\<close> is read here.
\<close>

record block =
  RTL :: bool

text \<open>
  Modelled from the spec: the data of \<open>Blockly.Field\<close> (core/field.js, not under
  src/). A field object has its current value (\<open>None\<close> while unset), the externally
  supplied validator, and the back-reference \<open>sourceBlock_\<close> to the block that
  contains it.
\<close>

record field =
  fld_value :: "string option"
  fld_validator :: "validator option"
  sourceBlock :: "block option"

text \<open>
  Modelled from the spec: \<open>Blockly.Field.prototype.getValue\<close> (core/field.js, not
  under src/) returns the current value.
\<close>

definition getValue :: "field \<Rightarrow> string option" where
  "getValue fld = fld_value fld"

text \<open>
  Modelled from the spec: \<open>Blockly.Field.prototype.setValue\<close> is defined in
  core/field.js, not under src/. ``Runs internal validation; [\dots] if validation
  yields null, the change is aborted (prior value retained)''. A validator that the
  field has stored is then asked; the constructor's documentation in src says of it:
  \<^verbatim>\<open>
   * @param {Function=} opt_validator A function that is called to validate
   *    changes to the field's value. Takes in a date string & returns a
   *    validated date string ('YYYY-MM-DD' format), or null to abort the change.
  \<close>
  So the external validator sees the string that the internal validation returned;
  \<open>null\<close> from it aborts the change, a string from it becomes the value. This is
  the effect of \<open>setValue\<close> on the field object; the notification it sends is added
  with the editor state below.
\<close>

definition Field_setValue :: "jsval \<Rightarrow> field \<Rightarrow> field" where
  "Field_setValue candidate fld =
     (case doClassValidation candidate of
        None \<Rightarrow> fld
      | Some v \<Rightarrow>
          (case fld_validator fld of
             None \<Rightarrow> fld\<lparr>fld_value := Some v\<rparr>
           | Some external \<Rightarrow>
               (case external v of
                  None \<Rightarrow> fld
                | Some v' \<Rightarrow> fld\<lparr>fld_value := Some v'\<rparr>)))"

text \<open>
  Modelled from the spec: the constructor of \<open>Blockly.Field\<close> (core/field.js, not
  under src/). It sets the initial value through \<open>setValue\<close> on the fresh object and
  then stores the validator: ``the constructor-time default-substitution path does not
  re-invoke the external validator, only the internal canonicalization'': while the
  initial value is set the fresh object has no validator yet. No block owns the field
  yet.
\<close>

definition Field_constructor :: "jsval \<Rightarrow> validator option \<Rightarrow> field" where
  "Field_constructor v opt_validator =
     (Field_setValue v \<lparr>fld_value = None, fld_validator = None, sourceBlock = None\<rparr>)
       \<lparr>fld_validator := opt_validator\<rparr>"

text \<open>
  \<^verbatim>\<open>
  Blockly.FieldDate = function(opt_value, opt_validator) {
    opt_value = this.doClassValidation_(opt_value);
    if (!opt_value) {
      opt_value = new goog.date.Date().toIsoString(true);
    }
    Blockly.FieldDate.superClass_.constructor.call(this, opt_value, opt_validator);
  };
  \<close>
  \<open>new goog.date.Date()\<close> reads the local clock; its reading is the parameter
  \<open>today\<close>.
\<close>

definition FieldDate :: "jsval \<Rightarrow> validator option \<Rightarrow> date \<Rightarrow> field" where
  "FieldDate opt_value opt_validator today =
     (let validated = doClassValidation opt_value;
          opt_value' = (if falsy_result validated then JString (toIsoString today)
                        else js_of_result validated)
      in Field_constructor opt_value' opt_validator)"

text \<open>
  \<^verbatim>\<open>
  Blockly.FieldDate.fromJson = function(options) {
    return new Blockly.FieldDate(options['date']);
  };
  \<close>
  The options object is a map from keys to values; a missing key reads as
  \<open>undefined\<close>, and so does the validator argument that is not passed.
\<close>

definition fromJson :: "(string \<rightharpoonup> jsval) \<Rightarrow> date \<Rightarrow> field" where
  "fromJson options today =
     FieldDate (case options ''date'' of None \<Rightarrow> JUndefined | Some v \<Rightarrow> v) None today"

subsection \<open>The editor state\<close>

text \<open>
  The overlay slot \<open>Blockly.WidgetDiv\<close> is shared by every widget of the editor.
  Its owner is a date field or an object of some other class.
\<close>

datatype widget_owner = DateField nat | OtherOwner nat

text \<open>
  The dispose callback handed to \<open>Blockly.WidgetDiv.show\<close>: the one of this file, or
  the callback of another class, whose code is not in this file and which acts on
  that class's own state only.
\<close>

datatype dispose_fn = FieldDate_widgetDispose | Foreign_dispose

type_synonym symbols = nat

record picker =
  allowNone :: bool
  showWeekNum :: bool
  picker_date :: "date option"
  picker_symbols :: symbols

text \<open>
  What a subscriber of the change-notification bus receives, and what it sees of the
  overlay slot at that moment.
\<close>

record change_notification =
  cn_field :: nat
  cn_old :: "string option"
  cn_new :: "string option"
  cn_overlay_owner :: "widget_owner option"

text \<open>
  \<^item> \<open>field_of\<close>: the field objects, by identity;
  \<^item> \<open>owner\<close>, \<open>dispose_cb\<close>, \<open>DIV\<close>: \<open>Blockly.WidgetDiv.owner_\<close>, \<open>.dispose_\<close> and
    the children of \<open>.DIV\<close>;
  \<^item> \<open>changeEventKey\<close>: the class-level variable \<open>Blockly.FieldDate.changeEventKey_\<close>;
  \<^item> \<open>listeners\<close>, \<open>nextKey\<close>: the live registrations of \<open>goog.events\<close>, each a key
    with the field its handler closes over (\<open>thisField\<close>), and the next fresh key;
  \<^item> \<open>group\<close>: the event group flag of \<open>Blockly.Events\<close>;
  \<^item> \<open>i18n\<close>: the enumerable properties of \<open>goog.i18n\<close> other than
    \<open>DateTimeSymbols\<close>, in \<open>for-in\<close> order; \<open>DateTimeSymbols\<close>: that property;
  \<^item> \<open>Msg\<close>: whether \<open>goog.getObjectByName(lang, Blockly.Msg)\<close> is truthy;
  \<^item> \<open>notifications\<close>: the calls made on the change-notification bus.
\<close>

record state =
  field_of :: "nat \<Rightarrow> field"
  owner :: "widget_owner option"
  dispose_cb :: "dispose_fn option"
  DIV :: "picker list"
  changeEventKey :: "nat option"
  listeners :: "(nat \<times> nat) list"
  nextKey :: nat
  group :: bool
  i18n :: "(string \<times> symbols) list"
  DateTimeSymbols :: symbols
  Msg :: "string \<Rightarrow> bool"
  notifications :: "change_notification list"

text \<open>
  Modelled from the spec: \<open>Blockly.Field.prototype.setValue\<close> (core/field.js, not
  under src/), on the editor state: the field object changes as \<open>Field_setValue\<close>
  says, validators included, and ``if result differs from current value, updates
  value and emits exactly one change notification to the owning block; if result
  equals current value, no notification''.
\<close>

definition setValue :: "nat \<Rightarrow> jsval \<Rightarrow> state \<Rightarrow> state" where
  "setValue f candidate s =
     (let old = field_of s f; new = Field_setValue candidate old
      in if fld_value new = fld_value old then s
         else s\<lparr>field_of := (field_of s)(f := new),
                notifications := notifications s @
                  [\<lparr>cn_field = f, cn_old = fld_value old, cn_new = fld_value new,
                    cn_overlay_owner = owner s\<rparr>]\<rparr>)"

subsection \<open>Event listeners and event groups\<close>

text \<open>
  Modelled from the spec: \<open>goog.events.listen\<close> and \<open>goog.events.unlistenByKey\<close>
  belong to the Closure library, not under src/. A subscription token is ``an opaque
  handle representing one active event-listener registration''; unsubscribing is
  ``idempotent --- safe if already unsubscribed''. A key is an object, hence truthy.
  \<open>listen\<close> registers the handler that closes over \<open>thisField\<close> under a fresh key.
\<close>

definition listen :: "nat \<Rightarrow> state \<Rightarrow> nat \<times> state" where
  "listen thisField s =
     (nextKey s, s\<lparr>listeners := listeners s @ [(nextKey s, thisField)],
                    nextKey := Suc (nextKey s)\<rparr>)"

text \<open>
  Modelled from the spec: \<open>goog.events.unlistenByKey\<close> (Closure library, not under
  src/) removes the registration with that key, if there is one.
\<close>

definition unlistenByKey :: "nat \<Rightarrow> state \<Rightarrow> state" where
  "unlistenByKey key s = s\<lparr>listeners := filter (\<lambda>l. fst l \<noteq> key) (listeners s)\<rparr>"

text \<open>
  Modelled from the spec: \<open>Blockly.Events.setGroup\<close> (core/events.js, not under
  src/) sets the ``grouped-events suppression flag used by the host's undo system''.
\<close>

definition setGroup :: "bool \<Rightarrow> state \<Rightarrow> state" where
  "setGroup b s = s\<lparr>group := b\<rparr>"

text \<open>
  \<^verbatim>\<open>
  Blockly.FieldDate.widgetDispose_ = function() {
    if (Blockly.FieldDate.changeEventKey_) {
      goog.events.unlistenByKey(Blockly.FieldDate.changeEventKey_);
    }
    Blockly.Events.setGroup(false);
  };
  \<close>
\<close>

definition widgetDispose :: "state \<Rightarrow> state" where
  "widgetDispose s =
     setGroup False
       (case changeEventKey s of
          Some key \<Rightarrow> unlistenByKey key s
        | None \<Rightarrow> s)"

subsection \<open>The overlay slot (Blockly.WidgetDiv)\<close>

text \<open>
  Modelled from the spec: calling the dispose callback that the overlay slot stores
  (\<open>Blockly.WidgetDiv.dispose_()\<close>, core/widgetdiv.js, not under src/).
\<close>

definition run_dispose :: "dispose_fn \<Rightarrow> state \<Rightarrow> state" where
  "run_dispose cb s =
     (case cb of FieldDate_widgetDispose \<Rightarrow> widgetDispose s | Foreign_dispose \<Rightarrow> s)"

text \<open>
  Modelled from the spec: \<open>Blockly.WidgetDiv.hide\<close>, \<open>.hideIfOwner\<close> and \<open>.show\<close>
  are defined in core/widgetdiv.js, not under src/. Closing, when the slot has an
  owner, runs the dispose callback stored at \<open>show\<close> (for a date field:
  ``unsubscribe the stored token, [\dots] clear any grouped-events suppression flag''),
  ``clear[s] the overlay container'' and leaves the slot without owner. \<open>close(field)\<close>
  is a ``no-op unless \<open>field\<close> is the current overlay owner''. Opening closes a prior
  overlay first and makes the new field the owner. The text direction passed to
  \<open>show\<close> only styles the container.
\<close>

definition WidgetDiv_hide :: "state \<Rightarrow> state" where
  "WidgetDiv_hide s =
     (case owner s of
        None \<Rightarrow> s
      | Some _ \<Rightarrow>
          (let s1 = (case dispose_cb s of None \<Rightarrow> s | Some cb \<Rightarrow> run_dispose cb s)
           in s1\<lparr>owner := None, dispose_cb := None, DIV := []\<rparr>))"

text \<open>
  Modelled from the spec: \<open>Blockly.WidgetDiv.hideIfOwner\<close> (core/widgetdiv.js, not
  under src/): ``no-op unless \<open>field\<close> is the current overlay owner''.
\<close>

definition WidgetDiv_hideIfOwner :: "widget_owner \<Rightarrow> state \<Rightarrow> state" where
  "WidgetDiv_hideIfOwner oldOwner s =
     (if owner s = Some oldOwner then WidgetDiv_hide s else s)"

text \<open>
  Modelled from the spec: \<open>Blockly.WidgetDiv.show\<close> (core/widgetdiv.js, not under
  src/): ``if another overlay is currently owned by a different field, that prior
  overlay is closed first''; then the new owner and its callback are stored.
\<close>

definition WidgetDiv_show :: "widget_owner \<Rightarrow> bool \<Rightarrow> dispose_fn \<Rightarrow> state \<Rightarrow> state" where
  "WidgetDiv_show newOwner rtl dispose s =
     (WidgetDiv_hide s)\<lparr>owner := Some newOwner, dispose_cb := Some dispose\<rparr>"

subsection \<open>Choosing the locale\<close>

text \<open>
  \<^verbatim>\<open>
  Blockly.FieldDate.loadLanguage_ = function() {
    var reg = /^DateTimeSymbols_(.+)$/;
    for (var prop in goog.i18n) {
      var m = prop.match(reg);
      if (m) {
        var lang = m[1].toLowerCase().replace('_', '.');  // E.g. 'pt.br'
        if (goog.getObjectByName(lang, Blockly.Msg)) {
          goog.i18n.DateTimeSymbols = goog.i18n[prop];
        }
      }
    }
  };
  \<close>
  \<open>match_reg prop\<close> is \<open>m[1]\<close> when the regular expression matches: what follows the
  prefix, when it is not empty and has no line terminator (\<open>.\<close> matches none).
  Property names are ASCII. \<open>String.prototype.replace\<close> with a string pattern
  replaces the first occurrence only.
\<close>

definition match_reg :: "string \<Rightarrow> string option" where
  "match_reg prop =
     (let prefix = ''DateTimeSymbols_''; rest = drop (length prefix) prop
      in if take (length prefix) prop = prefix \<and> rest \<noteq> [] \<and>
            list_all (\<lambda>c. c \<noteq> CHR 0x0A \<and> c \<noteq> CHR 0x0D) rest
         then Some rest else None)"

definition toLowerCase :: "string \<Rightarrow> string" where
  "toLowerCase str =
     map (\<lambda>c. let n = (of_char c :: nat) in if 65 \<le> n \<and> n \<le> 90 then char_of (n + 32) else c) str"

fun replace_first :: "char \<Rightarrow> char \<Rightarrow> string \<Rightarrow> string" where
  "replace_first a b [] = []"
| "replace_first a b (c # cs) = (if c = a then b # cs else c # replace_first a b cs)"

definition lang_of :: "string \<Rightarrow> string" where
  "lang_of m1 = replace_first (CHR ''_'') (CHR ''.'') (toLowerCase m1)"

text \<open>The loop, on the one variable it assigns: \<open>goog.i18n.DateTimeSymbols\<close>.\<close>

fun loadLanguage_loop :: "(string \<Rightarrow> bool) \<Rightarrow> (string \<times> symbols) list \<Rightarrow> symbols \<Rightarrow> symbols" where
  "loadLanguage_loop msg [] cur = cur"
| "loadLanguage_loop msg (p # rest) cur =
     loadLanguage_loop msg rest
       (case match_reg (fst p) of
          None \<Rightarrow> cur
        | Some m1 \<Rightarrow> if msg (lang_of m1) then snd p else cur)"

definition loadLanguage :: "state \<Rightarrow> state" where
  "loadLanguage s =
     s\<lparr>DateTimeSymbols := loadLanguage_loop (Msg s) (i18n s) (DateTimeSymbols s)\<rparr>"

text \<open>
  The candidates that match, in enumeration order: the property names that carry a
  locale code whose normalized form the message catalog has.
\<close>

definition matching :: "(string \<Rightarrow> bool) \<Rightarrow> string \<times> symbols \<Rightarrow> bool" where
  "matching msg p = (case match_reg (fst p) of None \<Rightarrow> False | Some m1 \<Rightarrow> msg (lang_of m1))"

text \<open>
  The same resolution as the specification words it, for comparison: the
  locale code is normalized by ``lowercase, underscore\<open>\<rightarrow>\<close>dot'', every underscore
  becoming a dot.
\<close>

definition lang_of_spec :: "string \<Rightarrow> string" where
  "lang_of_spec m1 = map (\<lambda>c. if c = CHR ''_'' then CHR ''.'' else c) (toLowerCase m1)"

fun loadLanguage_loop_spec :: "(string \<Rightarrow> bool) \<Rightarrow> (string \<times> symbols) list \<Rightarrow> symbols \<Rightarrow> symbols" where
  "loadLanguage_loop_spec msg [] cur = cur"
| "loadLanguage_loop_spec msg (p # rest) cur =
     loadLanguage_loop_spec msg rest
       (case match_reg (fst p) of
          None \<Rightarrow> cur
        | Some m1 \<Rightarrow> if msg (lang_of_spec m1) then snd p else cur)"

subsection \<open>Opening the editor\<close>

text \<open>
  \<^verbatim>\<open>
  Blockly.FieldDate.prototype.createWidget_ = function() {
    // Create the date picker using Closure.
    Blockly.FieldDate.loadLanguage_();
    var picker = new goog.ui.DatePicker();
    picker.setAllowNone(false);
    picker.setShowWeekNum(false);
    var div = Blockly.WidgetDiv.DIV;
    picker.render(div);
    picker.setDate(goog.date.DateTime.fromIsoString(this.getValue()));
    return picker;
  };
  \<close>
  The picker is the external calendar widget; it is kept as the settings it is given:
  the locale table active when it is created and its seed, ``\<open>field.getValue()\<close>
  parsed to a date (or left unseeded if null)''.
\<close>

definition createWidget :: "nat \<Rightarrow> state \<Rightarrow> picker \<times> state" where
  "createWidget this s =
     (let s1 = loadLanguage s;
          picker = \<lparr>allowNone = False, showWeekNum = False,
                    picker_date = (case getValue (field_of s1 this) of
                                     None \<Rightarrow> None
                                   | Some v \<Rightarrow> fromIsoString v),
                    picker_symbols = DateTimeSymbols s1\<rparr>
      in (picker, s1\<lparr>DIV := DIV s1 @ [picker]\<rparr>))"

text \<open>
  \<^verbatim>\<open>
  Blockly.FieldDate.prototype.showEditor_ = function() {
    Blockly.WidgetDiv.show(this, this.sourceBlock_.RTL,
        Blockly.FieldDate.widgetDispose_);
    ...
    var picker = this.createWidget_();
    ...
    // Configure event handler.
    var thisField = this;
    Blockly.FieldDate.changeEventKey_ = goog.events.listen(picker,
        goog.ui.DatePicker.Events.CHANGE,
        function(event) {
          var date = event.date ? event.date.toIsoString(true) : '';
          Blockly.WidgetDiv.hide();
          thisField.setValue(date);
        });
  };
  \<close>
  The elided lines measure and place the picker and change nothing that is modelled
  here. Reading \<open>RTL\<close> of a missing source block throws before anything is done.
\<close>

datatype error = TypeError

definition showEditor :: "nat \<Rightarrow> state \<Rightarrow> error + state" where
  "showEditor this s =
     (case sourceBlock (field_of s this) of
        None \<Rightarrow> Inl TypeError
      | Some b \<Rightarrow>
          (let s1 = WidgetDiv_show (DateField this) (RTL b) FieldDate_widgetDispose s;
               s2 = snd (createWidget this s1);
               l = listen this s2
           in Inr ((snd l)\<lparr>changeEventKey := Some (fst l)\<rparr>)))"

text \<open>
  The handler registered above, for the field it closes over. \<open>event_date\<close> is
  \<open>event.date\<close>: the picked date, or nothing.
\<close>

definition changeHandler :: "nat \<Rightarrow> date option \<Rightarrow> state \<Rightarrow> state" where
  "changeHandler thisField event_date s =
     (let date = (case event_date of Some d \<Rightarrow> toIsoString d | None \<Rightarrow> []);
          s1 = WidgetDiv_hide s
      in setValue thisField (JString date) s1)"

subsection \<open>Disposing of a field\<close>

text \<open>
  Modelled from the spec: \<open>Blockly.Field.prototype.dispose\<close> (core/field.js, not
  under src/) ``releases its own state'': the field lets go of its block.
\<close>

definition Field_dispose :: "nat \<Rightarrow> state \<Rightarrow> state" where
  "Field_dispose f s = s\<lparr>field_of := (field_of s)(f := (field_of s f)\<lparr>sourceBlock := None\<rparr>)\<rparr>"

text \<open>
  \<^verbatim>\<open>
  Blockly.FieldDate.prototype.dispose = function() {
    Blockly.WidgetDiv.hideIfOwner(this);
    Blockly.FieldDate.superClass_.dispose.call(this);
  };
  \<close>
\<close>

definition dispose :: "nat \<Rightarrow> state \<Rightarrow> state" where
  "dispose this s = Field_dispose this (WidgetDiv_hideIfOwner (DateField this) s)"

subsection \<open>Runs of the editor\<close>

text \<open>
  What can happen to the state, one event at a time (the editor is single-threaded):
  a date field is activated; the overlay is dismissed from outside; a field is
  disposed of; the calendar delivers a change event to a live listener; a value is
  set by program; a widget of another class takes the overlay slot. An exception
  abandons the event and leaves the state as it was.
\<close>

datatype event =
    Activate nat
  | Dismiss
  | Dispose nat
  | Change nat "date option"
  | SetValue nat jsval
  | ForeignShow nat

fun step :: "state \<Rightarrow> event \<Rightarrow> state" where
  "step s (Activate f) = (case showEditor f s of Inl e \<Rightarrow> s | Inr s' \<Rightarrow> s')"
| "step s Dismiss = WidgetDiv_hide s"
| "step s (Dispose f) = dispose f s"
| "step s (Change key d) =
     (case map_of (listeners s) key of None \<Rightarrow> s | Some f \<Rightarrow> changeHandler f d s)"
| "step s (SetValue f v) = setValue f v s"
| "step s (ForeignShow w) = WidgetDiv_show (OtherOwner w) False Foreign_dispose s"

text \<open>Before anything is opened: no owner, nothing rendered, no key stored, no listener.\<close>

definition initial :: "state \<Rightarrow> bool" where
  "initial s =
     (owner s = None \<and> dispose_cb s = None \<and> DIV s = [] \<and>
      changeEventKey s = None \<and> listeners s = [])"

text \<open>A run of the editor: the events of a list, one after the other.\<close>

fun run :: "state \<Rightarrow> event list \<Rightarrow> state" where
  "run s [] = s"
| "run s (e # es) = run (step s e) es"

text \<open>The overlay of date field \<open>f\<close> is open; the subscription tokens that are live.\<close>

definition overlay_open :: "nat \<Rightarrow> state \<Rightarrow> bool" where
  "overlay_open f s = (owner s = Some (DateField f))"

definition live_tokens :: "state \<Rightarrow> nat list" where
  "live_tokens s = map fst (listeners s)"

subsection \<open>A small editor to run\<close>

text \<open>
  Two date fields on a left-to-right block, both holding 1 March 2024, Portuguese
  messages loaded, and nothing open.
\<close>

definition demo_field :: field where
  "demo_field = \<lparr>fld_value = Some ''2024-03-01'', fld_validator = None,
                 sourceBlock = Some \<lparr>RTL = False\<rparr>\<rparr>"

definition demo :: state where
  "demo = \<lparr>field_of = (\<lambda>f. demo_field), owner = None, dispose_cb = None, DIV = [],
           changeEventKey = None, listeners = [], nextKey = 1, group = True,
           i18n = [(''DateTimeFormat'', 0), (''DateTimeSymbols_en'', 1),
                   (''DateTimeSymbols_pt_BR'', 2), (''DateTimeSymbols_he'', 3)],
           DateTimeSymbols = 1,
           Msg = (\<lambda>lang. lang = ''pt.br''),
           notifications = []\<rparr>"

text \<open>
  What holds between events: with no owner there is no callback and no listener; while
  a date field owns the slot the callback is \<open>widgetDispose_\<close> and the one listener
  is the stored token, with that field in its handler; while another widget owns the
  slot, no listener of a date picker is live.
\<close>

definition token_inv :: "state \<Rightarrow> bool" where
  "token_inv s =
     (case owner s of
        None \<Rightarrow> dispose_cb s = None \<and> listeners s = []
      | Some (DateField f) \<Rightarrow>
          dispose_cb s = Some FieldDate_widgetDispose \<and>
          (case changeEventKey s of None \<Rightarrow> False | Some key \<Rightarrow> listeners s = [(key, f)])
      | Some (OtherOwner w) \<Rightarrow> dispose_cb s = Some Foreign_dispose \<and> listeners s = [])"

text \<open>
  A message catalog that has Chinese in simplified script for mainland China under
  the key \<open>zh.hans.cn\<close>, and a locale table for it among the candidates.
\<close>

definition zh_Msg :: "string \<Rightarrow> bool" where
  "zh_Msg lang = (lang = ''zh.hans.cn'')"

definition zh_i18n :: "(string \<times> symbols) list" where
  "zh_i18n = [(''DateTimeSymbols_en'', 1), (''DateTimeSymbols_zh_Hans_CN'', 7)]"

text \<open>The same editor once the first field has been activated.\<close>

definition demo_open :: state where
  "demo_open = run demo [Activate 0]"

text \<open>
  An external validator that aborts every change, a date field constructed with it on
  2 November 2026 and put on a block, and the editor with that field, activated.
\<close>

definition reject_all :: validator where
  "reject_all v = None"

definition guarded_field :: field where
  "guarded_field =
     (FieldDate (JString ''2024-03-01'') (Some reject_all) \<lparr>year = 2026, month = 11, day = 2\<rparr>)
       \<lparr>sourceBlock := Some \<lparr>RTL = False\<rparr>\<rparr>"

definition guarded_open :: state where
  "guarded_open = run (demo\<lparr>field_of := (\<lambda>f. guarded_field)\<rparr>) [Activate 0]"

section \<open>Properties\<close>

subsection \<open>Canonical strings parse back to their date\<close>

lemma digit_of_digit_char: "k < 10 \<Longrightarrow> digit_of (digit_char k) = Some k"
  by (simp add: digit_of_def digit_char_def)

lemma digit_char_0: "digit_char 0 = CHR ''0''"
  by code_simp

lemma decimal_lt10: "n < 10 \<Longrightarrow> decimal n = [digit_char n]"
  by (simp add: decimal.simps)

lemma decimal_lt100: "10 \<le> n \<Longrightarrow> n < 100 \<Longrightarrow> decimal n = [digit_char (n div 10), digit_char (n mod 10)]"
  by (subst decimal.simps) (simp add: decimal_lt10)

lemma decimal_lt1000: "100 \<le> n \<Longrightarrow> n < 1000 \<Longrightarrow>
   decimal n = [digit_char (n div 100), digit_char (n div 10 mod 10), digit_char (n mod 10)]"
  by (subst decimal.simps) (simp add: decimal_lt100 div_mult2_eq[symmetric])

lemma decimal_lt10000: "1000 \<le> n \<Longrightarrow> n < 10000 \<Longrightarrow>
   decimal n = [digit_char (n div 1000), digit_char (n div 100 mod 10), digit_char (n div 10 mod 10), digit_char (n mod 10)]"
  by (subst decimal.simps) (simp add: decimal_lt1000 div_mult2_eq[symmetric])

lemma padNumber_2: "n < 100 \<Longrightarrow> padNumber n 2 = [digit_char (n div 10), digit_char (n mod 10)]"
  by (cases "n < 10") (simp_all add: padNumber_def decimal_lt10 decimal_lt100 digit_char_0)

lemma padNumber_4:
  assumes n: "n < 10000"
  shows "padNumber n 4 =
    [digit_char (n div 1000), digit_char (n div 100 mod 10), digit_char (n div 10 mod 10), digit_char (n mod 10)]"
proof -
  consider "n < 10" | "10 \<le> n" "n < 100" | "100 \<le> n" "n < 1000" | "1000 \<le> n"
    by linarith
  then show ?thesis
  proof cases
    case 1 then show ?thesis by (simp add: padNumber_def decimal_lt10 digit_char_0 numeral_3_eq_3)
  next
    case 2 then show ?thesis by (simp add: padNumber_def decimal_lt100 digit_char_0 numeral_2_eq_2)
  next
    case 3 then show ?thesis by (simp add: padNumber_def decimal_lt1000 digit_char_0)
  next
    case 4 then show ?thesis using n by (simp add: padNumber_def decimal_lt10000)
  qed
qed

lemma recompose_4:
  "10 * (10 * (10 * (n div 1000) + n div 100 mod 10) + n div 10 mod 10) + n mod 10 = (n::nat)"
proof -
  have a: "n div 1000 = n div 100 div 10" and b: "n div 100 = n div 10 div 10"
    by (simp_all add: div_mult2_eq[symmetric])
  have "10 * (n div 100 div 10) + n div 100 mod 10 = n div 100" by simp
  moreover have "10 * (n div 10 div 10) + n div 10 mod 10 = n div 10" by simp
  moreover have "10 * (n div 10) + n mod 10 = n" by simp
  ultimately show ?thesis unfolding a b by simp
qed

lemma digits_value_padNumber_2:
  assumes "n < 100" shows "digits_value 0 (padNumber n 2) = Some n"
proof -
  have "n div 10 < 10" using assms by simp
  moreover have "n mod 10 < 10" by simp
  ultimately show ?thesis
    by (simp add: padNumber_2[OF assms] digit_of_digit_char)
qed

lemma digits_value_4:
  "a < 10 \<Longrightarrow> b < 10 \<Longrightarrow> c < 10 \<Longrightarrow> d < 10 \<Longrightarrow>
   digits_value 0 [digit_char a, digit_char b, digit_char c, digit_char d] =
     Some (10 * (10 * (10 * a + b) + c) + d)"
  by (simp add: digit_of_digit_char)

lemma digits_value_padNumber_4:
  assumes "n < 10000" shows "digits_value 0 (padNumber n 4) = Some n"
proof -
  have "n div 1000 < 10" using assms by simp
  moreover have "n div 100 mod 10 < 10" "n div 10 mod 10 < 10" "n mod 10 < 10" by simp_all
  ultimately show ?thesis
    by (simp only: padNumber_4[OF assms] digits_value_4 recompose_4)
qed

lemma length_padNumber_2: "n < 100 \<Longrightarrow> length (padNumber n 2) = 2"
  by (simp add: padNumber_2)

lemma length_padNumber_4: "n < 10000 \<Longrightarrow> length (padNumber n 4) = 4"
  by (simp add: padNumber_4)


lemma fromIsoString_toIsoString:
  assumes "valid_date d"
  shows "fromIsoString (toIsoString d) = Some d"
proof -
  from assms have y: "year d < 10000" and m: "month d < 100" and dd: "day d < 100"
    and ok: "1 \<le> month d \<and> month d \<le> 12 \<and> 1 \<le> day d \<and> day d \<le> getNumberOfDaysInMonth (year d) (month d)"
    by (auto simp: valid_date_def getNumberOfDaysInMonth_def split: if_splits)
  obtain ys ms ds where ys: "ys = padNumber (year d) 4" and ms: "ms = padNumber (month d) 2"
    and ds: "ds = padNumber (day d) 2" by simp
  have len: "length ys = 4" "length ms = 2" "length ds = 2"
    using y m dd by (simp_all add: ys ms ds length_padNumber_4 length_padNumber_2)
  have val: "digits_value 0 ys = Some (year d)" "digits_value 0 ms = Some (month d)"
    "digits_value 0 ds = Some (day d)"
    using y m dd by (simp_all add: ys ms ds digits_value_padNumber_4 digits_value_padNumber_2)
  have s: "toIsoString d = ys @ CHR ''-'' # ms @ CHR ''-'' # ds"
    by (simp add: toIsoString_def ys ms ds)
  have "fromIsoString (ys @ CHR ''-'' # ms @ CHR ''-'' # ds) = make_date ys ms ds"
    using len by (simp add: fromIsoString_def nth_append)
  also have "\<dots> = Some d"
    using ok by (simp add: make_date_def val)
  finally show ?thesis by (simp add: s)
qed

lemma toIsoString_not_empty: "toIsoString d \<noteq> []"
  by (simp add: toIsoString_def)

lemma doClassValidation_toIsoString:
  "valid_date d \<Longrightarrow> doClassValidation (JString (toIsoString d)) = Some (toIsoString d)"
  by (simp add: fromIsoString_toIsoString toIsoString_not_empty)

subsection \<open>The validator\<close>

text \<open>
  Claim C1. The validator returns \<open>null\<close> for a falsy input (\<open>null\<close>, \<open>undefined\<close>,
  the empty string); for any other input it returns \<open>null\<close> exactly when the input
  does not parse as a calendar date or the parsed date, written canonically, is not the
  input itself. In particular it returns \<open>null\<close> on \<open>2020-02-30\<close> and on \<open>2020-2-1\<close>.
\<close>

theorem doClassValidation_null_iff:
  "(doClassValidation v = None \<longleftrightarrow>
      falsy v \<or> (\<exists>s. v = JString s \<and>
                    (fromIsoString s = None \<or> (\<exists>d. fromIsoString s = Some d \<and> toIsoString d \<noteq> s))))
   \<and> doClassValidation (JString ''2020-02-30'') = None
   \<and> doClassValidation (JString ''2020-2-1'') = None"
proof (intro conjI)
  show "doClassValidation v = None \<longleftrightarrow>
      falsy v \<or> (\<exists>s. v = JString s \<and>
                    (fromIsoString s = None \<or> (\<exists>d. fromIsoString s = Some d \<and> toIsoString d \<noteq> s)))"
    by (cases v) (auto split: option.splits)
  show "doClassValidation (JString ''2020-02-30'') = None" by code_simp
  show "doClassValidation (JString ''2020-2-1'') = None" by code_simp
qed

text \<open>
  The basic-format string \<open>20200301\<close> is truthy and parses, but is not canonical, so
  it is rejected; the empty string is falsy.
\<close>

theorem doClassValidation_null_iff_witness:
  "\<not> falsy (JString ''20200301'')
   \<and> fromIsoString ''20200301'' = Some \<lparr>year = 2020, month = 3, day = 1\<rparr>
   \<and> toIsoString \<lparr>year = 2020, month = 3, day = 1\<rparr> \<noteq> ''20200301''
   \<and> doClassValidation (JString ''20200301'') = None
   \<and> falsy (JString []) \<and> doClassValidation (JString []) = None"
proof -
  have p: "fromIsoString ''20200301'' = Some \<lparr>year = 2020, month = 3, day = 1\<rparr>"
    by code_simp
  have q: "toIsoString \<lparr>year = 2020, month = 3, day = 1\<rparr> \<noteq> ''20200301''"
    by code_simp
  show ?thesis
    using p q doClassValidation_null_iff [of "JString ''20200301''"]
      doClassValidation_null_iff [of "JString []"]
    by simp
qed

text \<open>
  Claim C2. For every string \<open>s\<close>, the validator returns \<open>null\<close> on \<open>s\<close>, or else
  validating its result gives that result again, and parsing the result and writing
  the date canonically gives the result again.
\<close>

theorem doClassValidation_idempotent_roundtrip:
  "doClassValidation (JString s) = None \<or>
   (doClassValidation (js_of_result (doClassValidation (JString s))) = doClassValidation (JString s)
    \<and> map_option toIsoString (Option.bind (doClassValidation (JString s)) fromIsoString)
        = doClassValidation (JString s))"
  by (auto split: option.splits)

theorem doClassValidation_idempotent_roundtrip_witness:
  "doClassValidation (JString ''2024-03-01'') = Some ''2024-03-01''
   \<and> doClassValidation (js_of_result (doClassValidation (JString ''2024-03-01''))) = Some ''2024-03-01''
   \<and> map_option toIsoString (fromIsoString ''2024-03-01'') = Some ''2024-03-01''"
proof -
  have v: "doClassValidation (JString ''2024-03-01'') = Some ''2024-03-01''"
    by code_simp
  show ?thesis
    using v doClassValidation_idempotent_roundtrip [of "''2024-03-01''"] by simp
qed

text \<open>
  Claim C10. Whenever the validator returns a string, that string is its input,
  unchanged: on the strings it accepts it is the identity.
\<close>

theorem doClassValidation_identity:
  "doClassValidation v = Some r \<Longrightarrow> v = JString r"
  by (cases v) (auto split: option.splits if_splits)

theorem doClassValidation_identity_witness:
  "doClassValidation (JString ''2024-02-29'') = Some ''2024-02-29''
   \<and> JString ''2024-02-29'' = JString ''2024-02-29''"
proof -
  have v: "doClassValidation (JString ''2024-02-29'') = Some ''2024-02-29''"
    by code_simp
  show ?thesis using v doClassValidation_identity [OF v] by simp
qed

subsection \<open>Construction\<close>

lemma validation_example_valid:
  "doClassValidation (JString ''2024-03-01'') = Some ''2024-03-01''"
  by code_simp

lemma validation_example_invalid:
  "doClassValidation (JString ''2024-13-40'') = None"
  by code_simp

lemma valid_date_example: "valid_date \<lparr>year = 2026, month = 11, day = 2\<rparr>"
  by code_simp

lemma toIsoString_example: "toIsoString \<lparr>year = 2026, month = 11, day = 2\<rparr> = ''2026-11-02''"
  by code_simp

lemma getValue_Field_constructor:
  "getValue (Field_constructor v vo) = doClassValidation v"
  by (simp add: Field_constructor_def Field_setValue_def getValue_def split: option.splits)

lemma FieldDate_value_default:
  assumes "valid_date today" "doClassValidation init = None"
  shows "getValue (FieldDate init vo today) = Some (toIsoString today)"
  using assms
  by (simp add: FieldDate_def getValue_Field_constructor doClassValidation_toIsoString
      del: doClassValidation.simps)

lemma FieldDate_value_valid:
  assumes "doClassValidation init = Some v"
  shows "getValue (FieldDate init vo today) = Some v"
proof -
  have i: "init = JString v"
    using assms by (cases init) (auto split: option.splits if_splits)
  have ne: "v \<noteq> []"
    using assms i by auto
  show ?thesis
    using assms ne i
    by (simp add: FieldDate_def getValue_Field_constructor Let_def del: doClassValidation.simps)
qed

text \<open>
  Claim C3. Let the local clock read a calendar date \<open>today\<close> (with a four-digit
  year, as the canonical form has). A date field constructed with an initial value
  that the validator rejects --- no argument at all, or \<open>2024-13-40\<close> --- has
  today's canonical string as its value; constructed with a string that the validator
  accepts, such as \<open>2024-03-01\<close>, it has exactly that string.
\<close>

theorem FieldDate_initial_value:
  assumes "valid_date today"
  shows "(doClassValidation init = None \<longrightarrow>
            getValue (FieldDate init vo today) = Some (toIsoString today))
       \<and> (\<forall>v. doClassValidation init = Some v \<longrightarrow> getValue (FieldDate init vo today) = Some v)
       \<and> getValue (FieldDate JUndefined vo today) = Some (toIsoString today)
       \<and> getValue (FieldDate (JString ''2024-13-40'') vo today) = Some (toIsoString today)
       \<and> getValue (FieldDate (JString ''2024-03-01'') vo today) = Some ''2024-03-01''"
proof (intro conjI allI impI)
  assume "doClassValidation init = None"
  with assms show "getValue (FieldDate init vo today) = Some (toIsoString today)"
    by (rule FieldDate_value_default)
next
  fix v assume "doClassValidation init = Some v"
  then show "getValue (FieldDate init vo today) = Some v"
    by (rule FieldDate_value_valid)
next
  show "getValue (FieldDate JUndefined vo today) = Some (toIsoString today)"
    using assms by (simp add: FieldDate_value_default)
next
  from assms validation_example_invalid
  show "getValue (FieldDate (JString ''2024-13-40'') vo today) = Some (toIsoString today)"
    by (rule FieldDate_value_default)
next
  from validation_example_valid
  show "getValue (FieldDate (JString ''2024-03-01'') vo today) = Some ''2024-03-01''"
    by (rule FieldDate_value_valid)
qed

theorem FieldDate_initial_value_witness:
  "valid_date \<lparr>year = 2026, month = 11, day = 2\<rparr>
   \<and> doClassValidation (JString ''2024-13-40'') = None
   \<and> getValue (FieldDate (JString ''2024-13-40'') None \<lparr>year = 2026, month = 11, day = 2\<rparr>)
       = Some ''2026-11-02''
   \<and> getValue (FieldDate JUndefined None \<lparr>year = 2026, month = 11, day = 2\<rparr>) = Some ''2026-11-02''
   \<and> doClassValidation (JString ''2024-03-01'') = Some ''2024-03-01''
   \<and> getValue (FieldDate (JString ''2024-03-01'') None \<lparr>year = 2026, month = 11, day = 2\<rparr>)
       = Some ''2024-03-01''"
  using valid_date_example toIsoString_example validation_example_invalid validation_example_valid
    FieldDate_initial_value [OF valid_date_example, of "JString ''2024-13-40''" None]
  by simp

text \<open>
  Claim C9. A date field constructed from a configuration object takes the value
  under the key \<open>date\<close> as its initial value and nothing else from the object: two
  objects that agree on \<open>date\<close> give the same field. No validator is installed.
\<close>

theorem fromJson_reads_date_only:
  "fromJson options today =
     FieldDate (case options ''date'' of None \<Rightarrow> JUndefined | Some v \<Rightarrow> v) None today
   \<and> (\<forall>options'. options' ''date'' = options ''date'' \<longrightarrow>
         fromJson options' today = fromJson options today)
   \<and> fld_validator (fromJson options today) = None"
  by (simp add: fromJson_def FieldDate_def Field_constructor_def Let_def)

theorem fromJson_reads_date_only_witness:
  "[''date'' \<mapsto> JString ''2024-03-01'', ''colour'' \<mapsto> JString ''red''] ''date''
     = [''date'' \<mapsto> JString ''2024-03-01''] ''date''
   \<and> fromJson [''date'' \<mapsto> JString ''2024-03-01'', ''colour'' \<mapsto> JString ''red'']
        \<lparr>year = 2026, month = 11, day = 2\<rparr>
     = fromJson [''date'' \<mapsto> JString ''2024-03-01''] \<lparr>year = 2026, month = 11, day = 2\<rparr>
   \<and> getValue (fromJson [''date'' \<mapsto> JString ''2024-03-01''] \<lparr>year = 2026, month = 11, day = 2\<rparr>)
     = Some ''2024-03-01''"
proof -
  have e: "[''date'' \<mapsto> JString ''2024-03-01'', ''colour'' \<mapsto> JString ''red''] ''date''
     = [''date'' \<mapsto> JString ''2024-03-01''] ''date''"
    by simp
  have g: "getValue (fromJson [''date'' \<mapsto> JString ''2024-03-01''] \<lparr>year = 2026, month = 11, day = 2\<rparr>)
     = Some ''2024-03-01''"
    using validation_example_valid by (simp add: fromJson_def FieldDate_value_valid)
  show ?thesis
    using e g
      fromJson_reads_date_only [of "[''date'' \<mapsto> JString ''2024-03-01'']"
        "\<lparr>year = 2026, month = 11, day = 2\<rparr>"]
    by blast
qed

subsection \<open>The opened editor, evaluated\<close>

lemma demo_open_owner: "owner demo_open = Some (DateField 0)"
  unfolding demo_open_def by code_simp

lemma demo_open_DIV: "length (DIV demo_open) = 1"
  unfolding demo_open_def by code_simp

lemma demo_open_listeners: "listeners demo_open = [(1, 0)]"
  unfolding demo_open_def by code_simp

lemma demo_open_changeEventKey: "changeEventKey demo_open = Some 1"
  unfolding demo_open_def by code_simp

lemma demo_open_group: "group demo_open"
  unfolding demo_open_def by code_simp

lemma demo_open_value: "getValue (field_of demo_open 0) = Some ''2024-03-01''"
  unfolding demo_open_def by code_simp

lemma demo_open_notifications: "notifications demo_open = []"
  unfolding demo_open_def by code_simp

subsection \<open>Closing the overlay\<close>

lemma unlistenByKey_idem: "unlistenByKey key (unlistenByKey key s) = unlistenByKey key s"
  by (simp add: unlistenByKey_def)

lemma widgetDispose_idem: "widgetDispose (widgetDispose s) = widgetDispose s"
  by (simp add: widgetDispose_def setGroup_def unlistenByKey_def split: option.splits)

lemma owner_WidgetDiv_hide: "owner (WidgetDiv_hide s) = None"
  by (simp add: WidgetDiv_hide_def run_dispose_def widgetDispose_def setGroup_def unlistenByKey_def
      Let_def split: option.splits dispose_fn.splits)

lemma field_of_WidgetDiv_hide [simp]: "field_of (WidgetDiv_hide s) = field_of s"
  by (simp add: WidgetDiv_hide_def run_dispose_def widgetDispose_def setGroup_def unlistenByKey_def
      Let_def split: option.splits dispose_fn.splits)

lemma notifications_WidgetDiv_hide [simp]: "notifications (WidgetDiv_hide s) = notifications s"
  by (simp add: WidgetDiv_hide_def run_dispose_def widgetDispose_def setGroup_def unlistenByKey_def
      Let_def split: option.splits dispose_fn.splits)

text \<open>
  Claim C5, as the code has it. \<open>widgetDispose_\<close> unsubscribes the stored token, so
  that it is live no more; unsubscribing is idempotent, and so is \<open>widgetDispose_\<close>;
  the event group flag is cleared. The variable \<open>changeEventKey_\<close> is not assigned:
  it keeps the token it held. When the only live token is the stored one, none is
  live afterwards.
\<close>

theorem widgetDispose_effect:
  "(\<forall>key. changeEventKey s = Some key \<longrightarrow> key \<notin> set (live_tokens (widgetDispose s)))
   \<and> unlistenByKey key (unlistenByKey key s) = unlistenByKey key s
   \<and> widgetDispose (widgetDispose s) = widgetDispose s
   \<and> \<not> group (widgetDispose s)
   \<and> changeEventKey (widgetDispose s) = changeEventKey s
   \<and> ((\<forall>key \<in> set (live_tokens s). changeEventKey s = Some key) \<longrightarrow>
        live_tokens (widgetDispose s) = [])"
proof (intro conjI)
  show "\<forall>key. changeEventKey s = Some key \<longrightarrow> key \<notin> set (live_tokens (widgetDispose s))"
    by (auto simp: widgetDispose_def setGroup_def unlistenByKey_def live_tokens_def)
  show "unlistenByKey key (unlistenByKey key s) = unlistenByKey key s"
    by (rule unlistenByKey_idem)
  show "widgetDispose (widgetDispose s) = widgetDispose s"
    by (rule widgetDispose_idem)
  show "\<not> group (widgetDispose s)"
    by (simp add: widgetDispose_def setGroup_def)
  show "changeEventKey (widgetDispose s) = changeEventKey s"
    by (simp add: widgetDispose_def setGroup_def unlistenByKey_def split: option.splits)
  show "(\<forall>key \<in> set (live_tokens s). changeEventKey s = Some key) \<longrightarrow>
        live_tokens (widgetDispose s) = []"
  proof (cases "changeEventKey s")
    case None
    then show ?thesis
      by (cases "listeners s") (auto simp: widgetDispose_def setGroup_def live_tokens_def)
  next
    case (Some k)
    then show ?thesis
      by (auto simp: widgetDispose_def setGroup_def unlistenByKey_def live_tokens_def
          filter_empty_conv)
  qed
qed

theorem widgetDispose_effect_witness:
  "changeEventKey demo_open = Some 1 \<and> live_tokens demo_open = [1] \<and> group demo_open
   \<and> live_tokens (widgetDispose demo_open) = []
   \<and> \<not> group (widgetDispose demo_open)
   \<and> changeEventKey (widgetDispose demo_open) = Some 1"
  using demo_open_changeEventKey demo_open_listeners demo_open_group
    widgetDispose_effect [of demo_open]
  by (simp add: live_tokens_def)

text \<open>
  The claim as stated has the stored token cleared by a close. It is not: after the
  first field's editor is closed, by \<open>widgetDispose_\<close> alone or by hiding the overlay,
  the variable still holds token 1.
\<close>

theorem widgetDispose_keeps_token_counterexample:
  "changeEventKey demo_open = Some 1
   \<and> changeEventKey (widgetDispose demo_open) = Some 1
   \<and> changeEventKey (WidgetDiv_hide demo_open) = Some 1
   \<and> owner (WidgetDiv_hide demo_open) = None"
  unfolding demo_open_def by code_simp

subsection \<open>Closing and disposing without owning the overlay\<close>

lemma owner_Field_dispose [simp]: "owner (Field_dispose f s) = owner s"
  by (simp add: Field_dispose_def)

lemma Field_dispose_idem: "Field_dispose f (Field_dispose f s) = Field_dispose f s"
  by (simp add: Field_dispose_def)

lemma dispose_idem: "dispose f (dispose f s) = dispose f s"
proof (cases "owner s = Some (DateField f)")
  case True
  then show ?thesis
    by (simp add: dispose_def WidgetDiv_hideIfOwner_def owner_WidgetDiv_hide Field_dispose_idem)
next
  case False
  then show ?thesis
    by (simp add: dispose_def WidgetDiv_hideIfOwner_def Field_dispose_idem)
qed

text \<open>
  Claim C6. For a field that does not own the overlay, closing (\<open>hideIfOwner\<close>)
  changes nothing at all, and \<open>dispose\<close> leaves the overlay slot, its container, the
  stored token, the listeners and the event group as they are. Both are total
  functions: there is no error to return. Disposing twice is disposing once.
\<close>

theorem dispose_not_owner:
  "(owner s \<noteq> Some (DateField f) \<longrightarrow>
      WidgetDiv_hideIfOwner (DateField f) s = s
      \<and> owner (dispose f s) = owner s \<and> dispose_cb (dispose f s) = dispose_cb s
      \<and> DIV (dispose f s) = DIV s
      \<and> changeEventKey (dispose f s) = changeEventKey s \<and> listeners (dispose f s) = listeners s
      \<and> group (dispose f s) = group s)
   \<and> dispose f (dispose f s) = dispose f s"
  by (simp add: dispose_idem) (simp add: dispose_def WidgetDiv_hideIfOwner_def Field_dispose_def)

theorem dispose_not_owner_witness:
  "owner demo_open \<noteq> Some (DateField 1)
   \<and> WidgetDiv_hideIfOwner (DateField 1) demo_open = demo_open
   \<and> owner (dispose 1 demo_open) = Some (DateField 0)
   \<and> length (DIV (dispose 1 demo_open)) = 1
   \<and> listeners (dispose 1 demo_open) = [(1, 0)]"
  using demo_open_owner demo_open_DIV demo_open_listeners dispose_not_owner [of demo_open 1]
  by simp

subsection \<open>The change handler\<close>

lemma getValue_setValue:
  "getValue (field_of (setValue f v s) f) =
     (case doClassValidation v of
        None \<Rightarrow> getValue (field_of s f)
      | Some r \<Rightarrow>
          (case fld_validator (field_of s f) of
             None \<Rightarrow> Some r
           | Some external \<Rightarrow>
               (case external r of
                  None \<Rightarrow> getValue (field_of s f)
                | Some r' \<Rightarrow> Some r')))"
  by (simp add: setValue_def Field_setValue_def getValue_def Let_def split: option.splits)

lemma owner_setValue [simp]: "owner (setValue f v s) = owner s"
  by (simp add: setValue_def Let_def)

lemma notifications_setValue:
  "\<exists>ns. notifications (setValue f v s) = notifications s @ ns \<and> length ns \<le> 1
        \<and> (\<forall>n \<in> set ns. cn_overlay_owner n = owner s)"
  by (simp add: setValue_def Let_def)

lemma field_of_showEditor: "showEditor f s = Inr s' \<Longrightarrow> field_of s' = field_of s"
  by (auto simp: showEditor_def WidgetDiv_show_def createWidget_def loadLanguage_def listen_def
      Let_def split: option.splits)

lemma field_of_step_Activate: "field_of (step s (Activate f)) = field_of s"
  by (cases "showEditor f s") (simp_all add: field_of_showEditor)

lemma demo_open_validator: "fld_validator (field_of demo_open 0) = None"
  by (simp add: demo_open_def field_of_step_Activate demo_def demo_field_def del: step.simps)

lemma validation_example_picked:
  "doClassValidation (JString (toIsoString \<lparr>year = 2025, month = 1, day = 5\<rparr>))
     = Some ''2025-01-05''"
  by code_simp

lemma changeHandler_owner: "owner (changeHandler f ev s) = None"
  by (simp add: changeHandler_def owner_WidgetDiv_hide)

lemma changeHandler_value:
  "getValue (field_of (changeHandler f ev s) f) =
     (case doClassValidation (JString (case ev of Some d \<Rightarrow> toIsoString d | None \<Rightarrow> [])) of
        None \<Rightarrow> getValue (field_of s f)
      | Some v \<Rightarrow>
          (case fld_validator (field_of s f) of
             None \<Rightarrow> Some v
           | Some external \<Rightarrow>
               (case external v of
                  None \<Rightarrow> getValue (field_of s f)
                | Some v' \<Rightarrow> Some v')))"
  unfolding changeHandler_def Let_def getValue_setValue
  by (simp del: doClassValidation.simps split: option.splits)

lemma guarded_field_validator: "fld_validator guarded_field = Some reject_all"
  by (simp add: guarded_field_def FieldDate_def Field_constructor_def Let_def)

lemma guarded_field_value: "getValue guarded_field = Some ''2024-03-01''"
proof -
  have "getValue guarded_field =
      getValue (FieldDate (JString ''2024-03-01'') (Some reject_all)
        \<lparr>year = 2026, month = 11, day = 2\<rparr>)"
    by (simp add: guarded_field_def getValue_def)
  with validation_example_valid show ?thesis
    by (simp only: FieldDate_value_valid)
qed

lemma guarded_open_field: "field_of guarded_open 0 = guarded_field"
  by (simp add: guarded_open_def field_of_step_Activate del: step.simps)

text \<open>
  Claim C4, as the program has it. The handler of the calendar's change event computes
  the date string (the picked date written canonically, or the empty string when there
  is none), closes the overlay, and calls \<open>setValue\<close> on the state in which the
  overlay is closed. Afterwards the overlay is closed, and the field's value is: the
  old value, when the class validator returns \<open>null\<close> for the date string; what the
  class validator returns, when the field has no external validator; and otherwise
  what the external validator makes of that --- the old value when it returns \<open>null\<close>.
  The handler sends at most one change notification, and its receiver sees no owner
  of the overlay.
\<close>

theorem changeHandler_closes_before_setValue:
  "changeHandler f ev s =
     setValue f (JString (case ev of Some d \<Rightarrow> toIsoString d | None \<Rightarrow> []))
       (WidgetDiv_hide s)
   \<and> owner (WidgetDiv_hide s) = None
   \<and> owner (changeHandler f ev s) = None
   \<and> getValue (field_of (changeHandler f ev s) f) =
       (case doClassValidation (JString (case ev of Some d \<Rightarrow> toIsoString d | None \<Rightarrow> [])) of
          None \<Rightarrow> getValue (field_of s f)
        | Some v \<Rightarrow>
            (case fld_validator (field_of s f) of
               None \<Rightarrow> Some v
             | Some external \<Rightarrow>
                 (case external v of
                    None \<Rightarrow> getValue (field_of s f)
                  | Some v' \<Rightarrow> Some v')))
   \<and> (fld_validator (field_of s f) = None \<longrightarrow>
        getValue (field_of (changeHandler f ev s) f) =
          (case doClassValidation
                  (JString (case ev of Some d \<Rightarrow> toIsoString d | None \<Rightarrow> [])) of
             None \<Rightarrow> getValue (field_of s f)
           | Some v \<Rightarrow> Some v))
   \<and> (\<exists>ns. notifications (changeHandler f ev s) = notifications s @ ns \<and> length ns \<le> 1
          \<and> (\<forall>n \<in> set ns. cn_overlay_owner n = None))"
proof -
  let ?date = "case ev of Some d \<Rightarrow> toIsoString d | None \<Rightarrow> []"
  have h: "changeHandler f ev s = setValue f (JString ?date) (WidgetDiv_hide s)"
    by (simp add: changeHandler_def)
  have o1: "owner (WidgetDiv_hide s) = None"
    by (rule owner_WidgetDiv_hide)
  have o2: "owner (changeHandler f ev s) = None"
    by (rule changeHandler_owner)
  note v = changeHandler_value [of f ev s]
  have w: "fld_validator (field_of s f) = None \<longrightarrow>
        getValue (field_of (changeHandler f ev s) f) =
          (case doClassValidation (JString ?date) of
             None \<Rightarrow> getValue (field_of s f)
           | Some v \<Rightarrow> Some v)"
    unfolding v by (simp del: doClassValidation.simps split: option.splits)
  have n: "\<exists>ns. notifications (changeHandler f ev s) = notifications s @ ns \<and> length ns \<le> 1
          \<and> (\<forall>n \<in> set ns. cn_overlay_owner n = None)"
    using notifications_setValue [of f "JString ?date" "WidgetDiv_hide s"]
    by (simp add: h owner_WidgetDiv_hide)
  from h o1 o2 v w n show ?thesis by (intro conjI)
qed

text \<open>
  On the opened editor, whose fields have no external validator: picking 5 January
  2025 sets the value and closes the overlay, and the one notification sees the
  overlay closed; a cleared date changes nothing.
\<close>

theorem changeHandler_closes_before_setValue_witness:
  "fld_validator (field_of demo_open 0) = None
   \<and> owner demo_open = Some (DateField 0)
   \<and> getValue (field_of demo_open 0) = Some ''2024-03-01''
   \<and> getValue (field_of (changeHandler 0 (Some \<lparr>year = 2025, month = 1, day = 5\<rparr>) demo_open) 0)
       = Some ''2025-01-05''
   \<and> getValue (field_of (changeHandler 0 None demo_open) 0) = Some ''2024-03-01''
   \<and> owner (changeHandler 0 (Some \<lparr>year = 2025, month = 1, day = 5\<rparr>) demo_open) = None
   \<and> notifications (changeHandler 0 (Some \<lparr>year = 2025, month = 1, day = 5\<rparr>) demo_open)
       = [\<lparr>cn_field = 0, cn_old = Some ''2024-03-01'', cn_new = Some ''2025-01-05'',
           cn_overlay_owner = None\<rparr>]"
proof -
  note picked = changeHandler_closes_before_setValue
    [of 0 "Some \<lparr>year = 2025, month = 1, day = 5\<rparr>" demo_open]
  note cleared = changeHandler_closes_before_setValue [of 0 None demo_open]
  have v1: "getValue (field_of (changeHandler 0 (Some \<lparr>year = 2025, month = 1, day = 5\<rparr>)
                 demo_open) 0) = Some ''2025-01-05''"
    using picked [THEN conjunct2, THEN conjunct2, THEN conjunct2, THEN conjunct2, THEN conjunct1,
        THEN mp, OF demo_open_validator]
    by (simp only: validation_example_picked option.case)
  have c: "doClassValidation (JString []) = None"
    by simp
  have v2: "getValue (field_of (changeHandler 0 None demo_open) 0) = Some ''2024-03-01''"
    using cleared [THEN conjunct2, THEN conjunct2, THEN conjunct2, THEN conjunct2, THEN conjunct1,
        THEN mp, OF demo_open_validator]
    by (simp only: c option.case demo_open_value)
  have o: "owner (changeHandler 0 (Some \<lparr>year = 2025, month = 1, day = 5\<rparr>) demo_open) = None"
    using picked [THEN conjunct2, THEN conjunct2, THEN conjunct1] .
  have n: "notifications (changeHandler 0 (Some \<lparr>year = 2025, month = 1, day = 5\<rparr>) demo_open)
       = [\<lparr>cn_field = 0, cn_old = Some ''2024-03-01'', cn_new = Some ''2025-01-05'',
           cn_overlay_owner = None\<rparr>]"
    unfolding demo_open_def by code_simp
  from demo_open_validator demo_open_owner demo_open_value v1 v2 o n show ?thesis
    by (intro conjI)
qed

text \<open>
  The claim as stated has the value equal to what the class validator returns whenever
  that is not \<open>null\<close>. On a field constructed with a validator that aborts every
  change, the class validator accepts 5 January 2025, and the handler closes the
  overlay and leaves the value at 1 March 2024.
\<close>

theorem changeHandler_validator_aborts_counterexample:
  "fld_validator (field_of guarded_open 0) = Some reject_all
   \<and> getValue (field_of guarded_open 0) = Some ''2024-03-01''
   \<and> doClassValidation (JString (toIsoString \<lparr>year = 2025, month = 1, day = 5\<rparr>))
       = Some ''2025-01-05''
   \<and> getValue (field_of (changeHandler 0 (Some \<lparr>year = 2025, month = 1, day = 5\<rparr>)
                 guarded_open) 0) = Some ''2024-03-01''
   \<and> owner (changeHandler 0 (Some \<lparr>year = 2025, month = 1, day = 5\<rparr>) guarded_open) = None"
proof -
  have a: "fld_validator (field_of guarded_open 0) = Some reject_all"
    by (simp only: guarded_open_field guarded_field_validator)
  have b: "getValue (field_of guarded_open 0) = Some ''2024-03-01''"
    by (simp only: guarded_open_field guarded_field_value)
  have c: "getValue (field_of (changeHandler 0 (Some \<lparr>year = 2025, month = 1, day = 5\<rparr>)
                 guarded_open) 0) = Some ''2024-03-01''"
    unfolding changeHandler_value
    by (simp only: option.case validation_example_picked a b reject_all_def)
  from a b validation_example_picked c changeHandler_owner show ?thesis
    by (intro conjI)
qed

subsection \<open>Choosing the locale\<close>

lemma loadLanguage_loop_last:
  "loadLanguage_loop msg ps cur = last (cur # map snd (filter (matching msg) ps))"
  by (induction ps arbitrary: cur) (auto simp: matching_def split: option.splits)

text \<open>
  The scan. The loop visits every property of \<open>goog.i18n\<close>; the active table becomes
  the table of the last property that matches, in enumeration order; when none
  matches, nothing changes; nothing but the active table is ever changed. Here a
  property matches when its name is \<open>DateTimeSymbols_\<close> followed by a locale code and
  the message catalog has the string that the code computes from it.
\<close>

lemma loadLanguage_last_match:
  "DateTimeSymbols (loadLanguage s) =
     last (DateTimeSymbols s # map snd (filter (matching (Msg s)) (i18n s)))
   \<and> (filter (matching (Msg s)) (i18n s) = [] \<longrightarrow> loadLanguage s = s)
   \<and> loadLanguage s = s\<lparr>DateTimeSymbols := DateTimeSymbols (loadLanguage s)\<rparr>
   \<and> (matching (Msg s) p \<longleftrightarrow>
        (\<exists>m1. match_reg (fst p) = Some m1 \<and>
              Msg s (replace_first (CHR ''_'') (CHR ''.'') (toLowerCase m1))))"
  by (auto simp: loadLanguage_def loadLanguage_loop_last matching_def lang_of_def
      split: option.splits)

text \<open>
  With the Portuguese catalog the Brazilian table (2) replaces the English one (1);
  with a catalog that no candidate matches the state is left as it is.
\<close>

lemma loadLanguage_last_match_example:
  "filter (matching (Msg demo)) (i18n demo) = [(''DateTimeSymbols_pt_BR'', 2)]
   \<and> DateTimeSymbols demo = 1
   \<and> DateTimeSymbols (loadLanguage demo) = 2
   \<and> filter (matching (Msg (demo\<lparr>Msg := zh_Msg\<rparr>))) (i18n (demo\<lparr>Msg := zh_Msg\<rparr>)) = []
   \<and> loadLanguage (demo\<lparr>Msg := zh_Msg\<rparr>) = demo\<lparr>Msg := zh_Msg\<rparr>"
proof -
  have f1: "filter (matching (Msg demo)) (i18n demo) = [(''DateTimeSymbols_pt_BR'', 2)]"
    by code_simp
  have d: "DateTimeSymbols demo = 1" by code_simp
  have f2: "filter (matching (Msg (demo\<lparr>Msg := zh_Msg\<rparr>))) (i18n (demo\<lparr>Msg := zh_Msg\<rparr>))
     = []"
    by code_simp
  note a = loadLanguage_last_match [of demo, THEN conjunct1]
  note b = loadLanguage_last_match [of "demo\<lparr>Msg := zh_Msg\<rparr>", THEN conjunct2, THEN conjunct1]
  have r1: "DateTimeSymbols (loadLanguage demo) = 2"
    using a by (simp add: f1 d)
  have r2: "loadLanguage (demo\<lparr>Msg := zh_Msg\<rparr>) = demo\<lparr>Msg := zh_Msg\<rparr>"
    using b f2 by blast
  from f1 d r1 f2 r2 show ?thesis by (intro conjI)
qed

text \<open>
  Claim C7. The claim has the locale code lowercased and its underscores turned into
  dots before the catalog is asked, and the last candidate that the catalog has
  becomes the active table. The code turns only the first underscore into a dot. For
  the candidate \<open>DateTimeSymbols_zh_Hans_CN\<close> and a catalog with the key
  \<open>zh.hans.cn\<close>, the resolution that the claim describes selects that candidate's
  table (7); the code looks up \<open>zh.hans_cn\<close>, finds nothing and leaves table 1 active.
\<close>

theorem loadLanguage_first_underscore_only:
  "match_reg ''DateTimeSymbols_zh_Hans_CN'' = Some ''zh_Hans_CN''
   \<and> lang_of_spec ''zh_Hans_CN'' = ''zh.hans.cn''
   \<and> lang_of ''zh_Hans_CN'' = ''zh.hans_cn''
   \<and> zh_Msg (lang_of_spec ''zh_Hans_CN'')
   \<and> loadLanguage_loop_spec zh_Msg zh_i18n 1 = 7
   \<and> loadLanguage_loop zh_Msg zh_i18n 1 = 1"
  by code_simp

subsection \<open>One live token\<close>

lemma token_inv_initial: "initial s \<Longrightarrow> token_inv s"
  by (simp add: initial_def token_inv_def)

lemma listeners_loadLanguage [simp]: "listeners (loadLanguage s) = listeners s"
  by (simp add: loadLanguage_def)

lemma hide_token_inv:
  assumes "token_inv s"
  shows "owner (WidgetDiv_hide s) = None \<and> dispose_cb (WidgetDiv_hide s) = None
         \<and> listeners (WidgetDiv_hide s) = []"
proof (cases "owner s")
  case None
  with assms show ?thesis by (simp add: WidgetDiv_hide_def token_inv_def)
next
  case (Some w)
  show ?thesis
  proof (cases w)
    case (DateField f)
    with Some assms show ?thesis
      by (auto simp: WidgetDiv_hide_def token_inv_def run_dispose_def widgetDispose_def
          setGroup_def unlistenByKey_def split: option.splits)
  next
    case (OtherOwner x)
    with Some assms show ?thesis
      by (auto simp: WidgetDiv_hide_def token_inv_def run_dispose_def)
  qed
qed

lemma token_inv_hide: "token_inv s \<Longrightarrow> token_inv (WidgetDiv_hide s)"
  using hide_token_inv [of s] by (simp add: token_inv_def)

lemma token_inv_foreign_show:
  "token_inv s \<Longrightarrow> token_inv (WidgetDiv_show (OtherOwner w) rtl Foreign_dispose s)"
  using hide_token_inv [of s] by (simp add: token_inv_def WidgetDiv_show_def)

lemma showEditor_token_inv:
  assumes "token_inv s" "showEditor f s = Inr s'"
  shows "token_inv s' \<and> owner s' = Some (DateField f) \<and> length (listeners s') = 1"
proof -
  from assms(2) obtain b where b: "sourceBlock (field_of s f) = Some b"
    by (auto simp: showEditor_def split: option.splits)
  let ?h = "WidgetDiv_hide s"
  from hide_token_inv [OF assms(1)]
  have h: "owner ?h = None" "dispose_cb ?h = None" "listeners ?h = []" by simp_all
  from assms(2) b h show ?thesis
    by (auto simp: showEditor_def WidgetDiv_show_def createWidget_def listen_def Let_def
        token_inv_def loadLanguage_def)
qed

lemma token_inv_setValue: "token_inv (setValue f v s) = token_inv s"
  by (simp add: setValue_def Let_def token_inv_def split: option.splits widget_owner.splits)

lemma token_inv_Field_dispose: "token_inv (Field_dispose f s) = token_inv s"
  by (simp add: Field_dispose_def token_inv_def split: option.splits widget_owner.splits)

lemma token_inv_dispose: "token_inv s \<Longrightarrow> token_inv (dispose f s)"
  by (simp add: dispose_def token_inv_Field_dispose WidgetDiv_hideIfOwner_def token_inv_hide)

lemma token_inv_changeHandler: "token_inv s \<Longrightarrow> token_inv (changeHandler f d s)"
  by (simp add: changeHandler_def token_inv_setValue token_inv_hide)

lemma token_inv_step: "token_inv s \<Longrightarrow> token_inv (step s e)"
proof (cases e)
  case (Activate f)
  assume "token_inv s"
  with Activate show ?thesis
    by (cases "showEditor f s") (auto dest: showEditor_token_inv)
next
  case (Change key d)
  assume "token_inv s"
  with Change show ?thesis
    by (auto simp: token_inv_changeHandler split: option.splits)
qed (simp_all add: token_inv_hide token_inv_dispose token_inv_setValue token_inv_foreign_show)

lemma token_inv_run: "token_inv s \<Longrightarrow> token_inv (run s es)"
  by (induction es arbitrary: s) (simp_all add: token_inv_step)

lemma token_inv_live:
  assumes "token_inv s"
  shows "length (live_tokens s) \<le> 1"
    and "(\<exists>f. overlay_open f s) \<longleftrightarrow> live_tokens s \<noteq> []"
    and "overlay_open f s \<longleftrightarrow> (\<exists>key. changeEventKey s = Some key \<and> listeners s = [(key, f)])"
  using assms
  by (auto simp: token_inv_def live_tokens_def overlay_open_def
      split: option.splits widget_owner.splits)

text \<open>
  Claim C8, as the code has it. Start from a state with nothing open and let any
  events happen. Then at most one subscription token is live; some date field's
  overlay is open exactly when a token is live; the overlay of field \<open>f\<close> is open
  exactly when the one live token is the stored one and its handler is that of \<open>f\<close>;
  and activating twice in a row, the same field or another, leaves exactly one live
  token, with the overlay open for the second field.
\<close>

theorem one_live_token:
  assumes "initial s0"
  shows "length (live_tokens (run s0 evs)) \<le> 1
       \<and> ((\<exists>f. overlay_open f (run s0 evs)) \<longleftrightarrow> live_tokens (run s0 evs) \<noteq> [])
       \<and> (\<forall>f. overlay_open f (run s0 evs) \<longleftrightarrow>
             (\<exists>key. changeEventKey (run s0 evs) = Some key \<and> listeners (run s0 evs) = [(key, f)]))
       \<and> (\<forall>f g s1 s2. showEditor f (run s0 evs) = Inr s1 \<longrightarrow> showEditor g s1 = Inr s2 \<longrightarrow>
             length (live_tokens s2) = 1 \<and> overlay_open g s2)"
proof -
  have inv: "token_inv (run s0 evs)"
    using assms by (simp add: token_inv_initial token_inv_run)
  have twice: "length (live_tokens s2) = 1 \<and> overlay_open g s2"
    if "showEditor f (run s0 evs) = Inr s1" "showEditor g s1 = Inr s2" for f g s1 s2
  proof -
    from showEditor_token_inv [OF inv that(1)] have "token_inv s1" by simp
    from showEditor_token_inv [OF this that(2)] show ?thesis
      by (simp add: live_tokens_def overlay_open_def)
  qed
  from token_inv_live [OF inv] twice show ?thesis by blast
qed

text \<open>
  On the small editor: after the first and then the second field are activated, the
  one live token is the second one (2), stored, and the overlay belongs to field 1.
\<close>

theorem one_live_token_witness:
  "initial demo
   \<and> length (live_tokens (run demo [Activate 0, Activate 1])) \<le> 1
   \<and> live_tokens (run demo [Activate 0, Activate 1]) = [2]
   \<and> changeEventKey (run demo [Activate 0, Activate 1]) = Some 2
   \<and> overlay_open 1 (run demo [Activate 0, Activate 1])"
proof -
  have i: "initial demo" by code_simp
  have a: "length (live_tokens (run demo [Activate 0, Activate 1])) \<le> 1"
    using one_live_token [OF i, of "[Activate 0, Activate 1]"] by (rule conjunct1)
  have b: "live_tokens (run demo [Activate 0, Activate 1]) = [2]" by code_simp
  have c: "changeEventKey (run demo [Activate 0, Activate 1]) = Some 2" by code_simp
  have d: "overlay_open 1 (run demo [Activate 0, Activate 1])" by code_simp
  from i a b c d show ?thesis by (intro conjI)
qed

text \<open>
  The claim as stated has the overlay open exactly when a token is held. After the
  first field is activated and the overlay dismissed, no overlay is open and no token
  is live, yet \<open>changeEventKey_\<close> still holds token 1.
\<close>

theorem token_held_overlay_closed_counterexample:
  "initial demo
   \<and> owner (run demo [Activate 0, Dismiss]) = None
   \<and> live_tokens (run demo [Activate 0, Dismiss]) = []
   \<and> changeEventKey (run demo [Activate 0, Dismiss]) = Some 1"
  by code_simp

end
